theory Spec2Isabelle
  imports Complex_Main "HOL-Library.Sublist"
begin

section \<open>Ohm's-law calculator (ley-ohm-calculadora.py, ley-ohm-desktop.py)\<close>

subsection \<open>Python float values\<close>

text \<open>
  The calculators take and return Python \<open>float\<close>s. A float is a finite number, one of
  the two infinities or NaN. Finite values are kept as reals: rounding and overflow of a
  finite result are not part of the model, the special values and the zero test are.
  The two zeros of IEEE arithmetic compare equal in Python and are the one value
  \<open>Finite 0\<close> here.
\<close>

datatype pyfloat = Finite real | PosInf | NegInf | NaN

datatype calc_error = ZeroDivisionError | ValueError string

fun is_zero :: "pyfloat \<Rightarrow> bool" where
  "is_zero (Finite x) = (x = 0)"
| "is_zero _ = False"

fun negative :: "pyfloat \<Rightarrow> bool" where
  "negative (Finite x) = (x < 0)"
| "negative NegInf = True"
| "negative _ = False"

definition inf_signed :: "bool \<Rightarrow> pyfloat" where
  "inf_signed neg = (if neg then NegInf else PosInf)"

text \<open>\<open>a * b\<close> on floats: never raises; an infinity times zero is NaN.\<close>

fun float_mul :: "pyfloat \<Rightarrow> pyfloat \<Rightarrow> pyfloat" where
  "float_mul NaN _ = NaN"
| "float_mul _ NaN = NaN"
| "float_mul (Finite a) (Finite b) = Finite (a * b)"
| "float_mul a b =
     (if is_zero a \<or> is_zero b then NaN else inf_signed (negative a \<noteq> negative b))"

text \<open>The quotient of IEEE arithmetic for a divisor that is not zero.\<close>

fun ieee_div :: "pyfloat \<Rightarrow> pyfloat \<Rightarrow> pyfloat" where
  "ieee_div NaN _ = NaN"
| "ieee_div _ NaN = NaN"
| "ieee_div (Finite a) (Finite b) = Finite (a / b)"
| "ieee_div (Finite a) _ = Finite 0"
| "ieee_div a (Finite b) = inf_signed (negative a \<noteq> (b < 0))"
| "ieee_div _ _ = NaN"

text \<open>
  \<open>a / b\<close> on floats: Python tests the divisor first and raises ZeroDivisionError when it
  compares equal to zero, whatever the dividend is.
\<close>

definition float_truediv :: "pyfloat \<Rightarrow> pyfloat \<Rightarrow> calc_error + pyfloat" where
  "float_truediv a b = (if is_zero b then Inl ZeroDivisionError else Inr (ieee_div a b))"

subsection \<open>The calculator classes and the factory\<close>

text \<open>
  The three concrete subclasses of \<open>CalculadoraOhm\<close>; \<open>calcular\<close> is the method,
  dispatched on the class of the receiver.
\<close>

datatype CalculadoraOhm = CalculadorVoltaje | CalculadorCorriente | CalculadorResistencia

fun calcular :: "CalculadoraOhm \<Rightarrow> pyfloat \<Rightarrow> pyfloat \<Rightarrow> calc_error + pyfloat" where
  "calcular CalculadorVoltaje corriente resistencia = Inr (float_mul corriente resistencia)"
| "calcular CalculadorCorriente voltaje resistencia = float_truediv voltaje resistencia"
| "calcular CalculadorResistencia voltaje corriente = float_truediv voltaje corriente"

text \<open>The message of the factory's ValueError; its accented letter (a with acute) is
  the code point 0xE1.\<close>

definition tipo_no_valido :: string where
  "tipo_no_valido = ''Tipo de calculadora no v'' @ [CHR 0xE1] @ ''lido''"

text \<open>\<open>FabricaCalculadoraOhm.crear_calculadora\<close> of the command-line calculator.\<close>

definition crear_calculadora :: "string \<Rightarrow> calc_error + CalculadoraOhm" where
  "crear_calculadora tipo =
     (if tipo = ''voltaje'' then Inr CalculadorVoltaje
      else if tipo = ''corriente'' then Inr CalculadorCorriente
      else if tipo = ''resistencia'' then Inr CalculadorResistencia
      else Inl (ValueError tipo_no_valido))"

text \<open>\<open>FabricaCalculadoraOhm.crear_calculadora\<close> of the desktop version
  (ley-ohm-desktop.py), which compares with the capitalised names.\<close>

definition crear_calculadora_desktop :: "string \<Rightarrow> calc_error + CalculadoraOhm" where
  "crear_calculadora_desktop tipo =
     (if tipo = ''Voltaje'' then Inr CalculadorVoltaje
      else if tipo = ''Corriente'' then Inr CalculadorCorriente
      else if tipo = ''Resistencia'' then Inr CalculadorResistencia
      else Inl (ValueError tipo_no_valido))"

section \<open>File-change-triggered auto-commit (auto-git-commit.py)\<close>

subsection \<open>Configuration\<close>


definition COMMIT_MESSAGE :: string where
  "COMMIT_MESSAGE = ''Auto-commit: Actualizaci'' @ [CHR 0xF3] @ ''n de c'' @ [CHR 0xF3] @ ''digo''"

definition GITHUB_REMOTE :: string where
  "GITHUB_REMOTE = ''origin''"

definition BRANCH_NAME :: string where
  "BRANCH_NAME = ''main''"

definition IGNORED_EXTENSIONS :: "string list" where
  "IGNORED_EXTENSIONS = [''.git'', ''.gitignore'', ''.vscode'', ''.idea'']"

subsection \<open>Strings, events, exceptions\<close>

text \<open>Python's \<open>needle in haystack\<close> on strings: the needle occurs at some position of
  the haystack; the empty needle occurs in every string.\<close>

fun str_in :: "string \<Rightarrow> string \<Rightarrow> bool" where
  "str_in needle [] = (needle = [])"
| "str_in needle (c # cs) = (prefix needle (c # cs) \<or> str_in needle cs)"

text \<open>A notification of the watchdog library: its kind, the path it is about and whether
  that path is a directory.\<close>

datatype event_kind = Created | Deleted | Modified | Moved | Closed | Opened

record event =
  event_type :: event_kind
  src_path :: string
  is_directory :: bool

text \<open>An exception raised by the git library, an instance of Python's \<open>Exception\<close>,
  kept by the text that \<open>str\<close> gives for it.\<close>

datatype exn = Exception string

fun str :: "exn \<Rightarrow> string" where
  "str (Exception text) = text"

subsection \<open>The repository object\<close>

text \<open>
  The script uses four operations of the GitPython repository object bound to the global
  \<open>repo\<close>: \<open>repo.git.add(A=True)\<close>, \<open>repo.index.commit(message)\<close>,
  \<open>repo.remote(name=...)\<close> and the \<open>push(branch)\<close> of the remote it returns. The
  library is not part of the program, so it is a parameter: a function that, for a call and
  the state of the repository (working tree, index, history, remote), says whether the call
  raises and what the state is afterwards. A call that raises may still have changed the
  state.
\<close>

datatype git_call =
    Git_add_A
  | Index_commit string
  | Repo_remote string
  | Remote_push string string

type_synonym 'w git = "git_call \<Rightarrow> 'w \<Rightarrow> exn option \<times> 'w"

text \<open>What the running process has done so far: the state of the repository, the calls
  made on the repository object in order, and the lines printed.\<close>

record 'w process =
  repo_state :: 'w
  calls :: "git_call list"
  stdout :: "string list"

definition print :: "string \<Rightarrow> 'w process \<Rightarrow> 'w process" where
  "print line s = s\<lparr>stdout := stdout s @ [line]\<rparr>"

definition call :: "'w git \<Rightarrow> git_call \<Rightarrow> 'w process \<Rightarrow> exn option \<times> 'w process" where
  "call repo c s =
     (case repo c (repo_state s) of
        (raised, w) \<Rightarrow> (raised, s\<lparr>repo_state := w, calls := calls s @ [c]\<rparr>))"

subsection \<open>The event handler \<open>GitAutoCommit\<close>\<close>

text \<open>
  \<open>stage_commit_and_push\<close>: the body of the \<open>try\<close> runs the four calls one after the
  other; the first one that raises leaves the body for the \<open>except Exception\<close> branch,
  which prints the error. The method returns nothing.
\<close>

definition stage_commit_and_push :: "'w git \<Rightarrow> 'w process \<Rightarrow> 'w process" where
  "stage_commit_and_push repo s =
     (case call repo Git_add_A s of
        (Some e, s1) \<Rightarrow> print (''Error al subir cambios: '' @ str e) s1
      | (None, s1) \<Rightarrow>
     (case call repo (Index_commit COMMIT_MESSAGE) s1 of
        (Some e, s2) \<Rightarrow> print (''Error al subir cambios: '' @ str e) s2
      | (None, s2) \<Rightarrow>
     (case call repo (Repo_remote GITHUB_REMOTE) s2 of
        (Some e, s3) \<Rightarrow> print (''Error al subir cambios: '' @ str e) s3
      | (None, s3) \<Rightarrow>
     (case call repo (Remote_push GITHUB_REMOTE BRANCH_NAME) s3 of
        (Some e, s4) \<Rightarrow> print (''Error al subir cambios: '' @ str e) s4
      | (None, s4) \<Rightarrow> print ''Cambios subidos a GitHub exitosamente.'' s4))))"

text \<open>
  \<open>on_modified\<close>. The extension that the source splits off the path is never used, so
  it is left out; \<open>any(ignored in file_path for ignored in IGNORED_EXTENSIONS)\<close> is
  \<open>list_ex\<close>.
\<close>

definition on_modified :: "'w git \<Rightarrow> event \<Rightarrow> 'w process \<Rightarrow> 'w process" where
  "on_modified repo event s =
     (if \<not> is_directory event then
        (let file_path = src_path event in
         if \<not> list_ex (\<lambda>ignored. str_in ignored file_path) IGNORED_EXTENSIONS then
           stage_commit_and_push repo (print (''Archivo modificado: '' @ file_path) s)
         else s)
      else s)"

text \<open>
  \<open>GitAutoCommit\<close> overrides \<open>on_modified\<close> only. The \<open>dispatch\<close> it inherits from
  watchdog's \<open>FileSystemEventHandler\<close> calls the method for the kind of the event, and
  the inherited methods for the other kinds do nothing.
\<close>

definition dispatch :: "'w git \<Rightarrow> event \<Rightarrow> 'w process \<Rightarrow> 'w process" where
  "dispatch repo event s =
     (case event_type event of
        Modified \<Rightarrow> on_modified repo event s
      | _ \<Rightarrow> s)"

text \<open>The observer thread hands the notifications to the handler one at a time, in the
  order they arrive.\<close>

fun dispatch_events :: "'w git \<Rightarrow> event list \<Rightarrow> 'w process \<Rightarrow> 'w process" where
  "dispatch_events repo [] s = s"
| "dispatch_events repo (event # events) s = dispatch_events repo events (dispatch repo event s)"

subsection \<open>The main program\<close>

text \<open>
  The statements of the script during which KeyboardInterrupt can reach the main thread:
  the opening of the repository (line 14), the scheduling and the start of the observer
  (lines 44 to 47), the \<open>k\<close>-th one-second sleep of the loop, \<open>observer.stop()\<close>
  (line 53) and \<open>observer.join()\<close> (line 54). Only the sleeps are inside the
  \<open>try\<close>. An interrupt at a place arrives while that statement runs, and the statement
  does not complete.
\<close>

datatype place = Open | Schedule | Start | Sleep nat | Stop | Join

text \<open>
  What the program meets when it runs: the result of \<open>Repo(REPO_PATH)\<close> (an exception,
  or the repository with its state), the repository object's behaviour, the results of
  \<open>observer.schedule\<close> and \<open>observer.start\<close>, the notifications that arrive during
  each sleep of the main loop, and the places at which KeyboardInterrupt arrives.
\<close>

record 'w host =
  Repo :: "string \<Rightarrow> exn + 'w"
  git :: "'w git"
  observer_schedule :: "string \<Rightarrow> exn option"
  observer_start :: "exn option"
  notifications :: "nat \<Rightarrow> event list"
  interrupt_at :: "place \<Rightarrow> bool"







subsection \<open>A repository for examples\<close>

text \<open>
  A small repository to run the program on: the paths changed in the working tree, the
  paths staged, the local history (message and paths of each commit, oldest first) and how
  many commits of it the remote branch has. As with GitPython, \<open>index.commit\<close> records a
  commit whether or not anything is staged, \<open>remote\<close> raises for a name that is not a
  remote, and \<open>push\<close> raises when the remote cannot be reached.
\<close>

record worktree =
  pending :: "string list"
  staged :: "string list"
  history :: "(string \<times> string list) list"
  pushed :: nat

fun example_git :: "bool \<Rightarrow> worktree git" where
  "example_git reachable Git_add_A w =
     (None, w\<lparr>pending := [], staged := staged w @ pending w\<rparr>)"
| "example_git reachable (Index_commit message) w =
     (None, w\<lparr>staged := [], history := history w @ [(message, staged w)]\<rparr>)"
| "example_git reachable (Repo_remote name) w =
     (if name = ''origin'' then None else Some (Exception ''no such remote''), w)"
| "example_git reachable (Remote_push name branch) w =
     (if reachable then (None, w\<lparr>pushed := length (history w)\<rparr>)
      else (Some (Exception ''could not reach the remote''), w))"

text \<open>A modification notification for a file, and a process that has just started on a
  repository whose working tree has the given changed paths.\<close>

definition modified_file :: "string \<Rightarrow> event" where
  "modified_file path = \<lparr>event_type = Modified, src_path = path, is_directory = False\<rparr>"

definition start :: "string list \<Rightarrow> worktree process" where
  "start changed =
     \<lparr>repo_state = \<lparr>pending = changed, staged = [], history = [], pushed = 0\<rparr>,
      calls = [], stdout = []\<rparr>"

text \<open>The example repository with one call that raises; the other calls behave as in
  \<open>example_git True\<close>.\<close>

definition failing_git :: "git_call \<Rightarrow> worktree git" where
  "failing_git bad c w =
     (if c = bad then (Some (Exception ''failed''), w) else example_git True c w)"

text \<open>
  The example repository with a remote that rejects the push. GitPython's \<open>push\<close> then
  returns a result that carries the error and does not raise; the script drops what
  \<open>push\<close> returns (line 37), so here the call returns normally and leaves the remote
  branch as it was.
\<close>

definition rejecting_git :: "worktree git" where
  "rejecting_git c w =
     (case c of
        Remote_push name branch \<Rightarrow> (None, w)
      | _ \<Rightarrow> example_git True c w)"


subsection \<open>The filter as the specification words it\<close>

text \<open>
  An event is relevant when it is not about a directory and no pattern of the ignore set
  is a substring of its path (\<open>sublist\<close>: the pattern is a contiguous part of the
  path).
\<close>

definition Filter_spec :: "string list \<Rightarrow> event \<Rightarrow> bool" where
  "Filter_spec ignore_set e \<longleftrightarrow>
     \<not> is_directory e \<and> (\<forall>pattern \<in> set ignore_set. \<not> sublist pattern (src_path e))"

section \<open>Properties of the calculator\<close>

text \<open>
  C9. The current and the resistance calculator divide without a guard: each raises
  ZeroDivisionError exactly when its divisor (the resistance, respectively the current) is
  zero, whatever the voltage is, and the voltage calculator returns the product normally
  for every pair of inputs.
\<close>

theorem calcular_division_by_zero:
  "(calcular CalculadorCorriente voltaje resistencia = Inl ZeroDivisionError
      \<longleftrightarrow> resistencia = Finite 0)
   \<and> (calcular CalculadorResistencia voltaje corriente = Inl ZeroDivisionError
      \<longleftrightarrow> corriente = Finite 0)
   \<and> (\<forall>e. calcular CalculadorCorriente voltaje resistencia = Inl e \<longrightarrow> resistencia = Finite 0)
   \<and> (\<forall>e. calcular CalculadorResistencia voltaje corriente = Inl e \<longrightarrow> corriente = Finite 0)
   \<and> calcular CalculadorVoltaje a b = Inr (float_mul a b)"
proof -
  have z: "is_zero x \<longleftrightarrow> x = Finite 0" for x
    by (cases x) simp_all
  show ?thesis
    by (simp add: float_truediv_def z)
qed

theorem calcular_division_by_zero_witness:
  "calcular CalculadorCorriente (Finite 12) (Finite 0) = Inl ZeroDivisionError
   \<and> calcular CalculadorResistencia NaN (Finite 0) = Inl ZeroDivisionError
   \<and> calcular CalculadorCorriente (Finite 12) (Finite 4) = Inr (Finite 3)
   \<and> calcular CalculadorVoltaje PosInf (Finite 0) = Inr NaN"
  using calcular_division_by_zero [where voltaje = "Finite 12" and resistencia = "Finite 0"
      and corriente = "Finite 0" and a = PosInf and b = "Finite 0"]
    calcular_division_by_zero [where voltaje = NaN and resistencia = "Finite 4"
      and corriente = "Finite 0" and a = PosInf and b = "Finite 0"]
  by (simp add: float_truediv_def)

text \<open>
  C10. The command-line factory returns the voltage, current or resistance calculator
  exactly for the lowercase names \<open>voltaje\<close>, \<open>corriente\<close>, \<open>resistencia\<close> and raises
  ValueError for every other string; the capitalised \<open>Voltaje\<close> is among the rejected
  ones, and the desktop factory is the one that accepts it.
\<close>

theorem crear_calculadora_lowercase_only:
  "(crear_calculadora tipo = Inr CalculadorVoltaje \<longleftrightarrow> tipo = ''voltaje'')
   \<and> (crear_calculadora tipo = Inr CalculadorCorriente \<longleftrightarrow> tipo = ''corriente'')
   \<and> (crear_calculadora tipo = Inr CalculadorResistencia \<longleftrightarrow> tipo = ''resistencia'')
   \<and> (tipo \<noteq> ''voltaje'' \<and> tipo \<noteq> ''corriente'' \<and> tipo \<noteq> ''resistencia''
        \<longrightarrow> crear_calculadora tipo = Inl (ValueError tipo_no_valido))
   \<and> crear_calculadora ''Voltaje'' = Inl (ValueError tipo_no_valido)
   \<and> crear_calculadora ''Corriente'' = Inl (ValueError tipo_no_valido)
   \<and> crear_calculadora ''Resistencia'' = Inl (ValueError tipo_no_valido)
   \<and> crear_calculadora_desktop ''Voltaje'' = Inr CalculadorVoltaje
   \<and> crear_calculadora_desktop ''voltaje'' = Inl (ValueError tipo_no_valido)"
  by (simp add: crear_calculadora_def crear_calculadora_desktop_def)

theorem crear_calculadora_lowercase_only_witness:
  "crear_calculadora ''corriente'' = Inr CalculadorCorriente
   \<and> crear_calculadora ''ohmios'' = Inl (ValueError tipo_no_valido)
   \<and> crear_calculadora '''' = Inl (ValueError tipo_no_valido)"
  using crear_calculadora_lowercase_only [of "''corriente''"]
    crear_calculadora_lowercase_only [of "''ohmios''"]
    crear_calculadora_lowercase_only [of "''''"]
  by simp

section \<open>Properties of the auto-commit script\<close>

subsection \<open>The filter\<close>

text \<open>Python's \<open>in\<close> on strings is containment as a contiguous part.\<close>

lemma str_in_iff_sublist: "str_in needle haystack \<longleftrightarrow> sublist needle haystack"
  by (induction haystack) (simp_all add: sublist_Cons_right)

lemma ignored_iff:
  "list_ex (\<lambda>ignored. str_in ignored p) igs \<longleftrightarrow> (\<exists>pattern \<in> set igs. sublist pattern p)"
  by (simp add: list_ex_iff str_in_iff_sublist)

lemma on_modified_Filter:
  "on_modified repo e s =
     (if Filter_spec IGNORED_EXTENSIONS e
      then stage_commit_and_push repo (print (''Archivo modificado: '' @ src_path e) s)
      else s)"
  by (simp add: on_modified_def Filter_spec_def ignored_iff Let_def)

lemma publish_calls_start:
  "\<exists>cs. calls (stage_commit_and_push repo s) = calls s @ Git_add_A # cs"
  by (simp add: stage_commit_and_push_def call_def print_def split: prod.splits option.splits)

lemma publish_changes_calls:
  "calls (stage_commit_and_push repo (print line s)) \<noteq> calls s"
  using publish_calls_start [of repo "print line s"] by (auto simp: print_def)

text \<open>
  C1. The handler's filter: \<open>on_modified\<close> runs the publisher (after printing the path)
  exactly when the event is not about a directory and no pattern of the ignore set is a
  substring of its path, and otherwise leaves everything as it is. So the publisher is
  called (the calls on the repository grow) if and only if the filter of the
  specification accepts the event; an event about a directory never passes, and an event
  about a file whose path has no ignore pattern always passes.
\<close>

theorem on_modified_filter:
  "on_modified repo e s =
     (if Filter_spec IGNORED_EXTENSIONS e
      then stage_commit_and_push repo (print (''Archivo modificado: '' @ src_path e) s)
      else s)
   \<and> ((calls (on_modified repo e s) \<noteq> calls s) = Filter_spec IGNORED_EXTENSIONS e)
   \<and> (is_directory e \<longrightarrow> on_modified repo e s = s)
   \<and> (\<not> is_directory e \<and> (\<forall>pattern \<in> set IGNORED_EXTENSIONS. \<not> sublist pattern (src_path e))
        \<longrightarrow> calls (on_modified repo e s) \<noteq> calls s)"
proof -
  have a: "(calls (on_modified repo e s) \<noteq> calls s) = Filter_spec IGNORED_EXTENSIONS e"
    by (simp add: on_modified_Filter publish_changes_calls)
  have b: "is_directory e \<longrightarrow> on_modified repo e s = s"
    by (simp add: on_modified_def)
  have c: "\<not> is_directory e \<and> (\<forall>pattern \<in> set IGNORED_EXTENSIONS. \<not> sublist pattern (src_path e))
        \<longrightarrow> calls (on_modified repo e s) \<noteq> calls s"
    using a by (simp add: Filter_spec_def)
  show ?thesis
    using a b c on_modified_Filter [of repo e s] by blast
qed

theorem on_modified_filter_witness:
  "calls (on_modified (example_git True) (modified_file ''src/app.py'') (start [''src/app.py'']))
     \<noteq> calls (start [''src/app.py''])
   \<and> on_modified (example_git True) (modified_file ''.git/HEAD'') (start []) = start []
   \<and> on_modified (example_git True)
        \<lparr>event_type = Modified, src_path = ''src'', is_directory = True\<rparr> (start []) = start []"
proof -
  have accepted: "Filter_spec IGNORED_EXTENSIONS (modified_file ''src/app.py'')"
    by (simp add: Filter_spec_def IGNORED_EXTENSIONS_def modified_file_def sublist_code)
  have ignored: "\<not> Filter_spec IGNORED_EXTENSIONS (modified_file ''.git/HEAD'')"
    by (simp add: Filter_spec_def IGNORED_EXTENSIONS_def modified_file_def sublist_code)
  have directory: "is_directory \<lparr>event_type = Modified, src_path = ''src'', is_directory = True\<rparr>"
    by simp
  have "calls (on_modified (example_git True) (modified_file ''src/app.py'')
          (start [''src/app.py''])) \<noteq> calls (start [''src/app.py''])"
    using accepted on_modified_filter [of "example_git True" "modified_file ''src/app.py''"
        "start [''src/app.py'']"]
    by blast
  moreover have "on_modified (example_git True) (modified_file ''.git/HEAD'') (start []) = start []"
    using ignored on_modified_filter [of "example_git True" "modified_file ''.git/HEAD''" "start []"]
    by (simp only: if_False)
  moreover have "on_modified (example_git True)
      \<lparr>event_type = Modified, src_path = ''src'', is_directory = True\<rparr> (start []) = start []"
    using directory on_modified_filter [of "example_git True"
        "\<lparr>event_type = Modified, src_path = ''src'', is_directory = True\<rparr>" "start []"]
    by blast
  ultimately show ?thesis
    by blast
qed

subsection \<open>The publisher\<close>

text \<open>
  C2. One run of the publisher makes its calls in the fixed order stage all
  (\<open>git add -A\<close>), commit with the message \<open>COMMIT_MESSAGE\<close>, look up the remote
  \<open>origin\<close>, push \<open>main\<close> to it; each call is made only when every earlier one
  returned normally, so the calls of a run are the sequence up to and including the first
  one that raises. The three steps that change something are stage, commit and push, in
  that order. The commit message is the same configured text whatever the repository
  and its changes are, and the success line is printed exactly when all four calls
  returned normally.
\<close>

theorem publish_steps_in_order:
  "let (r1, w1) = repo Git_add_A (repo_state s);
       (r2, w2) = repo (Index_commit COMMIT_MESSAGE) w1;
       (r3, w3) = repo (Repo_remote ''origin'') w2;
       (r4, w4) = repo (Remote_push ''origin'' ''main'') w3;
       s' = stage_commit_and_push repo s
   in calls s' = calls s @
        (if r1 \<noteq> None then [Git_add_A]
         else if r2 \<noteq> None then [Git_add_A, Index_commit COMMIT_MESSAGE]
         else if r3 \<noteq> None then [Git_add_A, Index_commit COMMIT_MESSAGE, Repo_remote ''origin'']
         else [Git_add_A, Index_commit COMMIT_MESSAGE, Repo_remote ''origin'',
               Remote_push ''origin'' ''main''])
      \<and> repo_state s' =
        (if r1 \<noteq> None then w1 else if r2 \<noteq> None then w2 else if r3 \<noteq> None then w3 else w4)
      \<and> (stdout s' = stdout s @ [''Cambios subidos a GitHub exitosamente.'']
           \<longleftrightarrow> r1 = None \<and> r2 = None \<and> r3 = None \<and> r4 = None)
      \<and> COMMIT_MESSAGE =
          ''Auto-commit: Actualizaci'' @ [CHR 0xF3] @ ''n de c'' @ [CHR 0xF3] @ ''digo''"
  by (simp add: stage_commit_and_push_def call_def print_def GITHUB_REMOTE_def BRANCH_NAME_def
        COMMIT_MESSAGE_def split: prod.splits option.splits)

theorem publish_steps_in_order_witness:
  "calls (stage_commit_and_push (example_git True) (start [''src/app.py''])) =
     [Git_add_A, Index_commit COMMIT_MESSAGE, Repo_remote ''origin'', Remote_push ''origin'' ''main'']
   \<and> stdout (stage_commit_and_push (example_git True) (start [''src/app.py''])) =
     [''Cambios subidos a GitHub exitosamente.'']
   \<and> calls (stage_commit_and_push (failing_git Git_add_A) (start [''src/app.py''])) = [Git_add_A]"
  using publish_steps_in_order [of "example_git True" "start [''src/app.py'']"]
    publish_steps_in_order [of "failing_git Git_add_A" "start [''src/app.py'']"]
  by (simp add: start_def failing_git_def Let_def)

lemma dispatch_events_append:
  "dispatch_events repo (es @ es') s = dispatch_events repo es' (dispatch_events repo es s)"
  by (induction es arbitrary: s) simp_all

text \<open>
  C3. When a step of a publish raises \<open>e\<close>, the steps after it are not attempted, the
  exception is caught inside the publisher and turned into the printed line
  \<open>Error al subir cambios: \<close> followed by \<open>str(e)\<close> (the failed outcome), every call
  has been made once only (no retry), and the handler returns: the observer goes on with
  the later events, so that a relevant modification arriving after any events, failed
  publishes among them, starts a publish of its own.
\<close>

theorem publish_failure_is_caught:
  "let (r1, w1) = repo Git_add_A (repo_state s);
       (r2, w2) = repo (Index_commit COMMIT_MESSAGE) w1;
       (r3, w3) = repo (Repo_remote GITHUB_REMOTE) w2;
       (r4, w4) = repo (Remote_push GITHUB_REMOTE BRANCH_NAME) w3;
       s' = stage_commit_and_push repo s
   in (r1 = Some e \<longrightarrow>
         s' = \<lparr>repo_state = w1, calls = calls s @ [Git_add_A],
               stdout = stdout s @ [''Error al subir cambios: '' @ str e]\<rparr>)
      \<and> (r1 = None \<and> r2 = Some e \<longrightarrow>
         s' = \<lparr>repo_state = w2, calls = calls s @ [Git_add_A, Index_commit COMMIT_MESSAGE],
               stdout = stdout s @ [''Error al subir cambios: '' @ str e]\<rparr>)
      \<and> (r1 = None \<and> r2 = None \<and> r3 = Some e \<longrightarrow>
         s' = \<lparr>repo_state = w3,
               calls = calls s @ [Git_add_A, Index_commit COMMIT_MESSAGE, Repo_remote GITHUB_REMOTE],
               stdout = stdout s @ [''Error al subir cambios: '' @ str e]\<rparr>)
      \<and> (r1 = None \<and> r2 = None \<and> r3 = None \<and> r4 = Some e \<longrightarrow>
         s' = \<lparr>repo_state = w4,
               calls = calls s @ [Git_add_A, Index_commit COMMIT_MESSAGE, Repo_remote GITHUB_REMOTE,
                                  Remote_push GITHUB_REMOTE BRANCH_NAME],
               stdout = stdout s @ [''Error al subir cambios: '' @ str e]\<rparr>)
      \<and> (event_type ev = Modified \<and> Filter_spec IGNORED_EXTENSIONS ev \<longrightarrow>
           (\<exists>cs. calls (dispatch_events repo (es @ [ev]) s) =
                 calls (dispatch_events repo es s) @ Git_add_A # cs))"
proof -
  have loop: "event_type ev = Modified \<and> Filter_spec IGNORED_EXTENSIONS ev \<longrightarrow>
      (\<exists>cs. calls (dispatch_events repo (es @ [ev]) s) =
            calls (dispatch_events repo es s) @ Git_add_A # cs)"
    using publish_calls_start [of repo
        "print (''Archivo modificado: '' @ src_path ev) (dispatch_events repo es s)"]
    by (simp add: dispatch_events_append dispatch_def on_modified_Filter print_def)
  show ?thesis
    using loop
    by (simp add: stage_commit_and_push_def call_def print_def split: prod.splits option.splits)
qed

theorem publish_failure_is_caught_witness:
  "stage_commit_and_push (failing_git (Index_commit COMMIT_MESSAGE)) (start [''src/app.py'']) =
     \<lparr>repo_state = \<lparr>pending = [], staged = [''src/app.py''], history = [], pushed = 0\<rparr>,
      calls = [Git_add_A, Index_commit COMMIT_MESSAGE],
      stdout = [''Error al subir cambios: failed'']\<rparr>
   \<and> (\<exists>cs. calls (dispatch_events (failing_git (Index_commit COMMIT_MESSAGE))
               ([modified_file ''src/app.py''] @ [modified_file ''README.md''])
               (start [''src/app.py''])) =
            calls (dispatch_events (failing_git (Index_commit COMMIT_MESSAGE))
               [modified_file ''src/app.py''] (start [''src/app.py''])) @ Git_add_A # cs)"
proof -
  have accepted: "event_type (modified_file ''README.md'') = Modified
      \<and> Filter_spec IGNORED_EXTENSIONS (modified_file ''README.md'')"
    by (simp add: Filter_spec_def IGNORED_EXTENSIONS_def modified_file_def sublist_code)
  show ?thesis
    using accepted
      publish_failure_is_caught [of "failing_git (Index_commit COMMIT_MESSAGE)"
        "start [''src/app.py'']" "Exception ''failed''" "modified_file ''README.md''"
        "[modified_file ''src/app.py'']"]
    by (simp add: start_def failing_git_def)
qed

text \<open>
  The publisher when the push raises: it prints the error line with \<open>str(e)\<close> and not
  the success line, and makes no call after the failed push, so the repository is left as
  the push left it; what the lookup of the remote and the failed push do not touch, the
  local history for git, is as the commit left it.
\<close>

lemma raising_push_keeps_commit:
  assumes "repo Git_add_A (repo_state s) = (None, w1)"
    and "repo (Index_commit COMMIT_MESSAGE) w1 = (None, w2)"
    and "repo (Repo_remote GITHUB_REMOTE) w2 = (None, w3)"
    and "repo (Remote_push GITHUB_REMOTE BRANCH_NAME) w3 = (Some e, w4)"
    and "local_history w3 = local_history w2"
    and "local_history w4 = local_history w3"
  shows "stdout (stage_commit_and_push repo s) =
           stdout s @ [''Error al subir cambios: '' @ str e]
         \<and> ''Cambios subidos a GitHub exitosamente.''
              \<notin> set (drop (length (stdout s)) (stdout (stage_commit_and_push repo s)))
         \<and> calls (stage_commit_and_push repo s) =
             calls s @ [Git_add_A, Index_commit COMMIT_MESSAGE, Repo_remote GITHUB_REMOTE,
                        Remote_push GITHUB_REMOTE BRANCH_NAME]
         \<and> repo_state (stage_commit_and_push repo s) = w4
         \<and> local_history (repo_state (stage_commit_and_push repo s)) = local_history w2"
  using assms
  by (simp add: stage_commit_and_push_def call_def print_def)

text \<open>
  C4 on the code. The publisher learns of a failed push only through an exception: it
  drops what \<open>push\<close> returns. On the example repository whose remote rejects the push,
  staging and the commit succeed and the push fails (the remote branch has none of the
  commits afterwards), yet the publisher prints the success line and no error line: the
  outcome is not a failure and there is no error message. The commit stays in the local
  history. On the sibling path, a push that raises because the remote cannot be reached,
  the error line is printed and the commit stays as well.
\<close>

theorem rejected_push_prints_success:
  "stdout (stage_commit_and_push rejecting_git (start [''src/app.py''])) =
     [''Cambios subidos a GitHub exitosamente.'']
   \<and> calls (stage_commit_and_push rejecting_git (start [''src/app.py''])) =
     [Git_add_A, Index_commit COMMIT_MESSAGE, Repo_remote ''origin'', Remote_push ''origin'' ''main'']
   \<and> repo_state (stage_commit_and_push rejecting_git (start [''src/app.py''])) =
     \<lparr>pending = [], staged = [], history = [(COMMIT_MESSAGE, [''src/app.py''])], pushed = 0\<rparr>
   \<and> stdout (stage_commit_and_push (example_git False) (start [''src/app.py''])) =
     [''Error al subir cambios: could not reach the remote'']
   \<and> repo_state (stage_commit_and_push (example_git False) (start [''src/app.py''])) =
     \<lparr>pending = [], staged = [], history = [(COMMIT_MESSAGE, [''src/app.py''])], pushed = 0\<rparr>"
  by (simp add: stage_commit_and_push_def call_def print_def start_def rejecting_git_def
        GITHUB_REMOTE_def BRANCH_NAME_def)




subsection \<open>The handler and the observer\<close>

text \<open>Every publish stages once, so staging calls count the publishes.\<close>

lemma count_publish:
  "count_list (calls (stage_commit_and_push repo s)) Git_add_A =
     Suc (count_list (calls s) Git_add_A)"
  by (simp add: stage_commit_and_push_def call_def print_def split: prod.splits option.splits)

lemma count_dispatch:
  "count_list (calls (dispatch repo e s)) Git_add_A =
     count_list (calls s) Git_add_A +
       (if event_type e = Modified \<and> Filter_spec IGNORED_EXTENSIONS e then 1 else 0)"
  by (cases "event_type e") (simp_all add: dispatch_def on_modified_Filter count_publish print_def)

lemma count_dispatch_events:
  "count_list (calls (dispatch_events repo es s)) Git_add_A =
     count_list (calls s) Git_add_A +
       length (filter (\<lambda>e. event_type e = Modified \<and> Filter_spec IGNORED_EXTENSIONS e) es)"
  by (induction es arbitrary: s) (simp_all add: count_dispatch)

text \<open>
  C6, as stated, fails. The handler reads no clock and keeps nothing between events: two
  modification events for two different files, both changed before the first is
  handled, give two complete publish runs, the first committing both files and the second
  an empty commit.
\<close>

theorem two_events_two_publishes:
  "calls (dispatch_events (example_git True)
       [modified_file ''a.txt'', modified_file ''b.txt''] (start [''a.txt'', ''b.txt''])) =
     [Git_add_A, Index_commit COMMIT_MESSAGE, Repo_remote ''origin'', Remote_push ''origin'' ''main'',
      Git_add_A, Index_commit COMMIT_MESSAGE, Repo_remote ''origin'', Remote_push ''origin'' ''main'']
   \<and> history (repo_state (dispatch_events (example_git True)
       [modified_file ''a.txt'', modified_file ''b.txt''] (start [''a.txt'', ''b.txt'']))) =
     [(COMMIT_MESSAGE, [''a.txt'', ''b.txt'']), (COMMIT_MESSAGE, [])]"
  by (simp add: dispatch_def on_modified_def modified_file_def IGNORED_EXTENSIONS_def Let_def
        stage_commit_and_push_def call_def print_def start_def GITHUB_REMOTE_def BRANCH_NAME_def)

text \<open>
  C6, amended. Nothing is coalesced and there is no debounce window: each modification
  event that passes the filter starts a publish of its own at once. The number of
  publishes (staging calls) that a sequence of events adds is the number of events in it
  that are modifications and pass the filter, and two such events are handled as two
  publishes, the second after the first has finished.
\<close>

theorem every_relevant_event_publishes:
  "count_list (calls (dispatch_events repo es s)) Git_add_A =
     count_list (calls s) Git_add_A +
       length (filter (\<lambda>e. event_type e = Modified \<and> Filter_spec IGNORED_EXTENSIONS e) es)
   \<and> (event_type e1 = Modified \<and> Filter_spec IGNORED_EXTENSIONS e1
      \<and> event_type e2 = Modified \<and> Filter_spec IGNORED_EXTENSIONS e2 \<longrightarrow>
        dispatch_events repo [e1, e2] s =
          stage_commit_and_push repo (print (''Archivo modificado: '' @ src_path e2)
            (stage_commit_and_push repo (print (''Archivo modificado: '' @ src_path e1) s))))"
  by (simp add: count_dispatch_events dispatch_def on_modified_Filter)

theorem every_relevant_event_publishes_witness:
  "count_list (calls (dispatch_events (example_git True)
       [modified_file ''a.txt'', modified_file ''.git/index'', modified_file ''b.txt'']
       (start [''a.txt'', ''b.txt'']))) Git_add_A = 2"
proof -
  have "length (filter (\<lambda>e. event_type e = Modified \<and> Filter_spec IGNORED_EXTENSIONS e)
      [modified_file ''a.txt'', modified_file ''.git/index'', modified_file ''b.txt'']) = 2"
    by (simp add: Filter_spec_def IGNORED_EXTENSIONS_def modified_file_def sublist_code)
  then show ?thesis
    using every_relevant_event_publishes [of "example_git True"
        "[modified_file ''a.txt'', modified_file ''.git/index'', modified_file ''b.txt'']"
        "start [''a.txt'', ''b.txt'']" "modified_file ''a.txt''" "modified_file ''b.txt''"]
    by (simp add: start_def)
qed

lemma dispatch_other_kind: "event_type e \<noteq> Modified \<Longrightarrow> dispatch repo e s = s"
  by (cases "event_type e") (simp_all add: dispatch_def)

text \<open>
  C8. Only notifications of kind modified reach the publisher: a notification of any other
  kind (created, deleted, moved, closed, opened) is dispatched to an inherited method that
  does nothing and leaves the process as it was, a modified one goes to \<open>on_modified\<close>,
  and for every sequence of notifications the outcome is that of its modified ones alone.
\<close>

theorem only_modified_events_publish:
  "(event_type e \<noteq> Modified \<longrightarrow> dispatch repo e s = s)
   \<and> (event_type e = Modified \<longrightarrow> dispatch repo e s = on_modified repo e s)
   \<and> dispatch_events repo es s =
       dispatch_events repo (filter (\<lambda>e. event_type e = Modified) es) s
   \<and> ((\<forall>e \<in> set es. event_type e \<noteq> Modified) \<longrightarrow> dispatch_events repo es s = s)"
proof -
  have a: "dispatch_events repo es s =
      dispatch_events repo (filter (\<lambda>e. event_type e = Modified) es) s"
    by (induction es arbitrary: s) (simp_all add: dispatch_other_kind)
  have b: "(\<forall>e \<in> set es. event_type e \<noteq> Modified) \<longrightarrow> dispatch_events repo es s = s"
    by (induction es arbitrary: s) (simp_all add: dispatch_other_kind)
  have c: "event_type e \<noteq> Modified \<longrightarrow> dispatch repo e s = s"
    by (simp add: dispatch_other_kind)
  have d: "event_type e = Modified \<longrightarrow> dispatch repo e s = on_modified repo e s"
    by (simp add: dispatch_def)
  show ?thesis
    using a b c d by blast
qed

theorem only_modified_events_publish_witness:
  "dispatch_events (example_git True)
     [\<lparr>event_type = Created, src_path = ''new.py'', is_directory = False\<rparr>,
      \<lparr>event_type = Deleted, src_path = ''old.py'', is_directory = False\<rparr>,
      \<lparr>event_type = Moved, src_path = ''a.py'', is_directory = False\<rparr>]
     (start [''new.py'']) = start [''new.py'']
   \<and> dispatch (example_git True) (modified_file ''a.py'') (start [''a.py'']) =
       on_modified (example_git True) (modified_file ''a.py'') (start [''a.py''])"
proof -
  let ?es = "[\<lparr>event_type = Created, src_path = ''new.py'', is_directory = False\<rparr>,
      \<lparr>event_type = Deleted, src_path = ''old.py'', is_directory = False\<rparr>,
      \<lparr>event_type = Moved, src_path = ''a.py'', is_directory = False\<rparr>]"
  have none: "\<forall>e \<in> set ?es. event_type e \<noteq> Modified"
    by simp
  have modified: "event_type (modified_file ''a.py'') = Modified"
    by (simp add: modified_file_def)
  have "dispatch_events (example_git True) ?es (start [''new.py'']) = start [''new.py'']"
    using none only_modified_events_publish [of "modified_file ''a.py''" "example_git True"
        "start [''new.py'']" ?es]
    by blast
  moreover have "dispatch (example_git True) (modified_file ''a.py'') (start [''a.py'']) =
      on_modified (example_git True) (modified_file ''a.py'') (start [''a.py''])"
    using modified only_modified_events_publish [of "modified_file ''a.py''" "example_git True"
        "start [''a.py'']" ?es]
    by blast
  ultimately show ?thesis
    by blast
qed

subsection \<open>The main program\<close>






end
